theory Spec2Isabelle
  imports Complex_Main
begin

section \<open>Newsletter report pipeline: normalizer, aggregator, comparator\<close>

text \<open>
  The development embeds the core of \<^verbatim>\<open>scripts/generate_report.py\<close> and
  \<^verbatim>\<open>scripts/newsletter_report.py\<close>.

  Numbers. The API's counters are Python integers and are modelled as \<^typ>\<open>int\<close>.
  The result of Python's true division \<^verbatim>\<open>/\<close> is a float; it is modelled
  as an exact rational (\<^typ>\<open>rat\<close>): no rounding error, no infinities and no NaN.
  The negative zero \<^verbatim>\<open>-0.0\<close> equals \<^verbatim>\<open>0.0\<close> in every comparison and differs
  from it only when printed; the one place where the pipeline can print it (a quotient
  \<^verbatim>\<open>0 / previous\<close> with a negative \<^verbatim>\<open>previous\<close>) passes that fact to the formatter
  as a flag. Every concrete evaluation below uses values whose float computation is
  exact, so that the figures are those the interpreter prints.

  Errors. A Python exception is a value: a function that divides returns
  \<open>py_error + 'a\<close>, and \<open>Inl ZeroDivisionError\<close> is the raise of
  \<^verbatim>\<open>x / 0\<close>; \<open>Inl (SystemExit n)\<close> is \<^verbatim>\<open>sys.exit(n)\<close>.
\<close>

subsection \<open>Python primitives\<close>

datatype py_error = ZeroDivisionError | SystemExit int

definition py_truediv :: "rat \<Rightarrow> rat \<Rightarrow> py_error + rat" where
  \<comment> \<open>\<^verbatim>\<open>a / b\<close>\<close>
  "py_truediv a b = (if b = 0 then Inl ZeroDivisionError else Inr (a / b))"

definition bindE :: "'e + 'a \<Rightarrow> ('a \<Rightarrow> 'e + 'b) \<Rightarrow> 'e + 'b" where
  \<comment> \<open>sequencing: an exception of the first computation skips the rest\<close>
  "bindE r f = (case r of Inl e \<Rightarrow> Inl e | Inr v \<Rightarrow> f v)"

definition py_int :: "rat \<Rightarrow> int" where
  \<comment> \<open>\<^verbatim>\<open>int(x)\<close> of a float: truncation toward zero\<close>
  "py_int x = (if 0 \<le> x then \<lfloor>x\<rfloor> else \<lceil>x\<rceil>)"

definition dict_get :: "'a option \<Rightarrow> 'a \<Rightarrow> 'a" where
  \<comment> \<open>\<^verbatim>\<open>d.get(key, default)\<close>, the field being \<open>None\<close> when the key is absent\<close>
  "dict_get field dflt = (case field of None \<Rightarrow> dflt | Some v \<Rightarrow> v)"

definition round_half_even :: "rat \<Rightarrow> int" where
  \<comment> \<open>the nearest integer, a tie going to the even one (the rounding of
      \<^verbatim>\<open>round\<close> and of the \<^verbatim>\<open>f\<close> format)\<close>
  "round_half_even x =
     (let f = \<lfloor>x\<rfloor>; d = x - of_int f
      in if d < 1 / 2 then f else if 1 / 2 < d then f + 1
         else if even f then f else f + 1)"

definition py_round2 :: "rat \<Rightarrow> rat" where
  \<comment> \<open>\<^verbatim>\<open>round(x, 2)\<close>\<close>
  "py_round2 x = of_int (round_half_even (x * 100)) / 100"

definition digit_char :: "nat \<Rightarrow> char" where
  "digit_char d = ''0123456789'' ! d"

fun str_nat :: "nat \<Rightarrow> string" where
  "str_nat n =
     (if n < 10 then [digit_char n] else str_nat (n div 10) @ [digit_char (n mod 10)])"

declare str_nat.simps [simp del]

definition zfill :: "nat \<Rightarrow> string \<Rightarrow> string" where
  "zfill w s = replicate (w - length s) CHR ''0'' @ s"

definition format_plus_f :: "nat \<Rightarrow> bool \<Rightarrow> rat \<Rightarrow> string" where
  \<comment> \<open>\<^verbatim>\<open>f"{x:+.Nf}"\<close> for a precision \<open>N \<ge> 1\<close>: the sign always printed, the
      magnitude rounded to \<open>N\<close> decimals. \<open>minus_zero\<close> says that the float is
      \<^verbatim>\<open>-0.0\<close>, which prints with \<open>-\<close>\<close>
  "format_plus_f prec minus_zero x =
     (let n = nat (round_half_even (\<bar>x\<bar> * 10 ^ prec))
      in (if x < 0 \<or> minus_zero then ''-'' else ''+'') @ str_nat (n div 10 ^ prec) @ ''.'' @
         zfill prec (str_nat (n mod 10 ^ prec)))"

subsection \<open>Comparator\<close>

text \<open>The dictionary \<^verbatim>\<open>{"value": .., "display": .., "positive": ..}\<close>.\<close>

record change_result =
  value' :: rat
  display :: string
  positive :: bool

text \<open>
  In the percentage branch \<^verbatim>\<open>diff\<close> is never \<^verbatim>\<open>-0.0\<close>: \<^verbatim>\<open>previous\<close> is not zero
  there, and the difference of two equal floats is \<^verbatim>\<open>0.0\<close>. In the other branch the
  quotient is \<^verbatim>\<open>-0.0\<close> exactly when the numerator is zero and \<^verbatim>\<open>previous\<close> is
  negative, and so is its product by 100.
\<close>

definition calc_change :: "rat \<Rightarrow> rat \<Rightarrow> bool \<Rightarrow> py_error + change_result" where
  "calc_change current previous is_percentage =
     (if previous = 0 then Inr \<lparr>value' = 0, display = ''N/A'', positive = True\<rparr>
      else if is_percentage then
        (let diff = current - previous
         in Inr \<lparr>value' = diff, display = format_plus_f 2 False diff @ ''pp'',
                 positive = (0 \<le> diff)\<rparr>)
      else
        bindE (py_truediv (current - previous) previous) (\<lambda>q.
          let pct_change = q * 100;
              minus_zero = (current - previous = 0 \<and> previous < 0)
          in Inr \<lparr>value' = pct_change,
                  display = format_plus_f 1 minus_zero pct_change @ ''%'',
                  positive = (0 \<le> pct_change)\<rparr>))"

subsection \<open>Raw API records\<close>

text \<open>
  A post as the API's JSON gives it. A key the source reads with
  \<^verbatim>\<open>.get(key, default)\<close> is an optional field (\<open>None\<close>: the key is absent);
  the fields carry the prefix \<open>j_\<close> of the JSON side.
\<close>

record raw_click =
  j_url :: "string option"
  j_description :: "string option"
  j_total_clicks :: "int option"
  j_total_unique_clicks :: "int option"

record raw_email =
  j_recipients :: "int option"
  j_opens :: "int option"
  j_unique_opens :: "int option"
  j_clicks :: "int option"
  j_unique_clicks :: "int option"
  j_unsubscribes :: "int option"

record raw_web =
  j_views :: "int option"

record raw_stats =
  j_email :: "raw_email option"
  j_web :: "raw_web option"

record raw_post =
  j_id :: "string option"
  j_title :: "string option"
  j_publish_date :: "int option"
  j_stats :: "raw_stats option"
  j_post_clicks :: "raw_click list option"

definition empty_email :: raw_email where
  \<comment> \<open>the default \<^verbatim>\<open>{}\<close> of \<^verbatim>\<open>stats.get("email", {})\<close>\<close>
  "empty_email = \<lparr>j_recipients = None, j_opens = None, j_unique_opens = None,
     j_clicks = None, j_unique_clicks = None, j_unsubscribes = None\<rparr>"

definition empty_web :: raw_web where
  "empty_web = \<lparr>j_views = None\<rparr>"

definition empty_stats :: raw_stats where
  "empty_stats = \<lparr>j_email = None, j_web = None\<rparr>"

subsection \<open>Post normalizer\<close>

text \<open>
  The per-post metrics both scripts compute. \<open>date\<close> is the publish timestamp: its
  rendering as a local date (\<^verbatim>\<open>datetime.fromtimestamp\<close>, and the \<^verbatim>\<open>strftime\<close>
  strings under the keys \<^verbatim>\<open>date\<close> and \<^verbatim>\<open>month\<close> of the CSV script) is not
  modelled. \<open>post_metrics\<close> is the dictionary of \<^verbatim>\<open>process_post\<close>
  (\<^verbatim>\<open>generate_report.py\<close>), \<open>post_data\<close> that of \<^verbatim>\<open>process_post_data\<close>
  (\<^verbatim>\<open>newsletter_report.py\<close>).
\<close>

record link_click =
  url :: string
  description :: string
  link_clicks :: int
  link_unique_clicks :: int
  post_title :: "string option"

text \<open>
  \<open>link_clicks\<close> and \<open>link_unique_clicks\<close> are the keys \<^verbatim>\<open>clicks\<close> and
  \<^verbatim>\<open>unique_clicks\<close> of a click; \<open>post_title\<close> is set by the report builders only.
\<close>

record post_core =
  title :: string
  date :: int
  recipients :: int
  opens :: int
  unique_opens :: int
  open_rate :: rat
  clicks :: int
  unique_clicks :: int
  click_rate :: rat
  unsubscribes :: int
  web_views :: int
  impressions :: int

record post_metrics = post_core +
  top_clicks :: "link_click list"

record post_data = post_core +
  publication :: string
  post_id :: string

text \<open>
  A row of the clicks export; \<open>cd_publication\<close>, \<open>cd_post_title\<close>, \<open>cd_clicks\<close> and
  \<open>cd_unique_clicks\<close> are its keys \<^verbatim>\<open>publication\<close>, \<^verbatim>\<open>post_title\<close>,
  \<^verbatim>\<open>clicks\<close> and \<^verbatim>\<open>unique_clicks\<close>.
\<close>

record click_data =
  cd_publication :: string
  cd_post_title :: string
  link_url :: string
  link_description :: string
  cd_clicks :: int
  cd_unique_clicks :: int

definition rate_pct :: "int \<Rightarrow> int \<Rightarrow> py_error + rat" where
  \<comment> \<open>\<^verbatim>\<open>(n / recipients * 100) if recipients > 0 else 0\<close>\<close>
  "rate_pct n recips =
     (if 0 < recips then bindE (py_truediv (of_int n) (of_int recips)) (\<lambda>q. Inr (q * 100))
      else Inr 0)"

definition process_click :: "raw_click \<Rightarrow> link_click" where
  \<comment> \<open>the dictionary appended for one click in \<^verbatim>\<open>process_post\<close>\<close>
  "process_click click =
     \<lparr>url = dict_get (j_url click) [],
      description = dict_get (j_description click) (take 50 (dict_get (j_url click) [])),
      link_clicks = dict_get (j_total_clicks click) 0,
      link_unique_clicks = dict_get (j_total_unique_clicks click) 0,
      post_title = None\<rparr>"

definition process_post :: "raw_post \<Rightarrow> py_error + post_metrics" where
  "process_post post =
     (let stats = dict_get (j_stats post) empty_stats;
          email = dict_get (j_email stats) empty_email;
          web = dict_get (j_web stats) empty_web;
          recips = dict_get (j_recipients email) 0;
          u_opens = dict_get (j_unique_opens email) 0;
          u_clicks = dict_get (j_unique_clicks email) 0;
          n_opens = dict_get (j_opens email) 0;
          views = dict_get (j_views web) 0;
          clicks_data = map process_click (take 5 (dict_get (j_post_clicks post) []))
      in bindE (rate_pct u_opens recips) (\<lambda>o_rate.
         bindE (rate_pct u_clicks recips) (\<lambda>c_rate.
           Inr \<lparr>title = dict_get (j_title post) [],
                date = dict_get (j_publish_date post) 0,
                recipients = recips,
                opens = n_opens,
                unique_opens = u_opens,
                open_rate = o_rate,
                clicks = dict_get (j_clicks email) 0,
                unique_clicks = u_clicks,
                click_rate = c_rate,
                unsubscribes = dict_get (j_unsubscribes email) 0,
                web_views = views,
                impressions = n_opens + views,
                top_clicks = clicks_data\<rparr>)))"

definition process_post_data :: "raw_post \<Rightarrow> string \<Rightarrow> py_error + post_data" where
  "process_post_data post publication_name =
     (let stats = dict_get (j_stats post) empty_stats;
          email_stats = dict_get (j_email stats) empty_email;
          web_stats = dict_get (j_web stats) empty_web;
          recips = dict_get (j_recipients email_stats) 0;
          n_opens = dict_get (j_opens email_stats) 0;
          u_opens = dict_get (j_unique_opens email_stats) 0;
          n_clicks = dict_get (j_clicks email_stats) 0;
          u_clicks = dict_get (j_unique_clicks email_stats) 0;
          unsubs = dict_get (j_unsubscribes email_stats) 0;
          views = dict_get (j_views web_stats) 0
      in bindE (rate_pct u_opens recips) (\<lambda>o_rate.
         bindE (rate_pct u_clicks recips) (\<lambda>c_rate.
           Inr \<lparr>title = dict_get (j_title post) [],
                date = dict_get (j_publish_date post) 0,
                recipients = recips,
                opens = n_opens,
                unique_opens = u_opens,
                open_rate = py_round2 o_rate,
                clicks = n_clicks,
                unique_clicks = u_clicks,
                click_rate = py_round2 c_rate,
                unsubscribes = unsubs,
                web_views = views,
                impressions = n_opens + views,
                publication = publication_name,
                post_id = dict_get (j_id post) []\<rparr>)))"

definition process_clicks_data :: "raw_post \<Rightarrow> string \<Rightarrow> click_data list" where
  "process_clicks_data post publication_name =
     map (\<lambda>click.
           \<lparr>cd_publication = publication_name,
            cd_post_title = dict_get (j_title post) [],
            link_url = dict_get (j_url click) [],
            link_description =
              dict_get (j_description click) (take 50 (dict_get (j_url click) [])),
            cd_clicks = dict_get (j_total_clicks click) 0,
            cd_unique_clicks = dict_get (j_total_unique_clicks click) 0\<rparr>)
         (dict_get (j_post_clicks post) [])"

subsection \<open>Aggregator\<close>

definition sorted_desc :: "('a \<Rightarrow> 'k::linorder) \<Rightarrow> 'a list \<Rightarrow> 'a list" where
  \<comment> \<open>\<^verbatim>\<open>sorted(xs, key=f, reverse=True)\<close>: descending and stable (equal keys keep
      their original order)\<close>
  "sorted_desc f xs = rev (sort_key f (rev xs))"

text \<open>
  The dictionary of \<^verbatim>\<open>calc_metrics\<close>; \<open>agg_impressions\<close> and
  \<open>agg_unsubscribes\<close> are its keys \<^verbatim>\<open>impressions\<close> and \<^verbatim>\<open>unsubscribes\<close>.
\<close>

record period_aggregate =
  posts_sent :: int
  avg_sent :: int
  agg_impressions :: int
  avg_unique_opens :: int
  avg_open_rate :: rat
  total_clicks :: int
  avg_unique_clicks :: int
  avg_click_rate :: rat
  agg_unsubscribes :: int
  top_posts :: "post_metrics list"

definition calc_metrics :: "post_metrics list \<Rightarrow> py_error + period_aggregate option" where
  "calc_metrics posts =
     (if posts = [] then Inr None
      else
        let count = int (length posts)
        in bindE (py_truediv (of_int (sum_list (map recipients posts))) (of_int count)) (\<lambda>m_sent.
           bindE (py_truediv (of_int (sum_list (map unique_opens posts))) (of_int count)) (\<lambda>m_opens.
           bindE (py_truediv (sum_list (map open_rate posts)) (of_int count)) (\<lambda>m_open_rate.
           bindE (py_truediv (of_int (sum_list (map unique_clicks posts))) (of_int count)) (\<lambda>m_clicks.
           bindE (py_truediv (sum_list (map click_rate posts)) (of_int count)) (\<lambda>m_click_rate.
             Inr (Some
               \<lparr>posts_sent = count,
                avg_sent = py_int m_sent,
                agg_impressions = sum_list (map impressions posts),
                avg_unique_opens = py_int m_opens,
                avg_open_rate = m_open_rate,
                total_clicks = sum_list (map clicks posts),
                avg_unique_clicks = py_int m_clicks,
                avg_click_rate = m_click_rate,
                agg_unsubscribes = sum_list (map unsubscribes posts),
                top_posts = take 3 (sorted_desc open_rate posts)\<rparr>)))))))"

text \<open>
  The figures \<^verbatim>\<open>print_weekly_summary\<close> (\<^verbatim>\<open>newsletter_report.py\<close>) computes for
  the posts of one publication before printing them; \<open>None\<close> is its
  \<^verbatim>\<open>continue\<close> on an empty list.
\<close>

record summary_metrics =
  post_count :: int
  sm_avg_sent :: rat
  total_impressions :: int
  sm_avg_unique_opens :: rat
  sm_avg_open_rate :: rat
  sm_total_clicks :: int
  sm_avg_unique_clicks :: rat
  sm_avg_click_rate :: rat
  total_unsubs :: int

definition weekly_summary_metrics :: "post_data list \<Rightarrow> py_error + summary_metrics option" where
  "weekly_summary_metrics pub_posts =
     (if pub_posts = [] then Inr None
      else
        let n = int (length pub_posts)
        in bindE (py_truediv (of_int (sum_list (map recipients pub_posts))) (of_int n)) (\<lambda>m_sent.
           bindE (py_truediv (of_int (sum_list (map unique_opens pub_posts))) (of_int n)) (\<lambda>m_opens.
           bindE (py_truediv (sum_list (map open_rate pub_posts)) (of_int n)) (\<lambda>m_open_rate.
           bindE (py_truediv (of_int (sum_list (map unique_clicks pub_posts))) (of_int n)) (\<lambda>m_clicks.
           bindE (py_truediv (sum_list (map click_rate pub_posts)) (of_int n)) (\<lambda>m_click_rate.
             Inr (Some
               \<lparr>post_count = n,
                sm_avg_sent = m_sent,
                total_impressions = sum_list (map impressions pub_posts),
                sm_avg_unique_opens = m_opens,
                sm_avg_open_rate = m_open_rate,
                sm_total_clicks = sum_list (map clicks pub_posts),
                sm_avg_unique_clicks = m_clicks,
                sm_avg_click_rate = m_click_rate,
                total_unsubs = sum_list (map unsubscribes pub_posts)\<rparr>)))))))"

subsection \<open>Fetcher\<close>

text \<open>
  The HTTP exchange of \<^verbatim>\<open>fetch_posts\<close>: the query parameters of one request and
  what the loop reads of the response (\<open>r_data\<close> and \<open>r_total_pages\<close> are the keys
  \<^verbatim>\<open>data\<close> and \<^verbatim>\<open>total_pages\<close> of the JSON body, \<open>None\<close> when absent). The
  server is a function from the publication identifier and the request to the response.
  The interval arrives as the two timestamps \<^verbatim>\<open>int(start_date.timestamp())\<close> and
  \<^verbatim>\<open>int(end_date.timestamp())\<close>.
\<close>

record request =
  rq_status :: string
  rq_limit :: int
  rq_page :: int
  rq_expand :: "string list option"

record response =
  status_code :: int
  r_data :: "raw_post list option"
  r_total_pages :: "int option"

type_synonym server = "string \<Rightarrow> request \<Rightarrow> response"

definition page_request :: "string list option \<Rightarrow> int \<Rightarrow> request" where
  \<comment> \<open>\<^verbatim>\<open>params\<close>; \<^verbatim>\<open>expand[]\<close> is set only when \<^verbatim>\<open>expand\<close> is given and non-empty\<close>
  "page_request expand page =
     \<lparr>rq_status = ''confirmed'', rq_limit = 100, rq_page = page,
      rq_expand = (if expand = None \<or> expand = Some [] then None else expand)\<rparr>"

definition in_window :: "int \<Rightarrow> int \<Rightarrow> raw_post \<Rightarrow> bool" where
  \<comment> \<open>\<^verbatim>\<open>start_ts <= post.get("publish_date", 0) <= end_ts\<close>\<close>
  "in_window start_ts end_ts post =
     (start_ts \<le> dict_get (j_publish_date post) 0 \<and> dict_get (j_publish_date post) 0 \<le> end_ts)"

text \<open>
  The \<^verbatim>\<open>while True\<close> loop. \<^verbatim>\<open>get_headers()\<close> runs before every request and
  ends the process (\<^verbatim>\<open>sys.exit(1)\<close>) when the credential is empty. The loop has no
  bound of its own: the result \<open>None\<close> is a run that never returns.
\<close>

partial_function (option) fetch_loop ::
  "string \<Rightarrow> server \<Rightarrow> string \<Rightarrow> string list option \<Rightarrow> int \<Rightarrow> int \<Rightarrow> int \<Rightarrow>
   raw_post list \<Rightarrow> (py_error + raw_post list) option" where
  "fetch_loop api_key srv publication_id expand start_ts end_ts page all_posts =
     (if api_key = [] then Some (Inl (SystemExit 1))
      else
        let resp = srv publication_id (page_request expand page)
        in if status_code resp \<noteq> 200 then Some (Inr all_posts)
           else
             let posts = dict_get (r_data resp) []
             in if posts = [] then Some (Inr all_posts)
                else
                  let all_posts' = all_posts @ filter (in_window start_ts end_ts) posts
                  in if dict_get (r_total_pages resp) 1 \<le> page then Some (Inr all_posts')
                     else fetch_loop api_key srv publication_id expand start_ts end_ts
                            (page + 1) all_posts')"

definition fetch_posts_expand ::
  "string \<Rightarrow> server \<Rightarrow> string \<Rightarrow> int \<Rightarrow> int \<Rightarrow> string list option \<Rightarrow>
   (py_error + raw_post list) option" where
  \<comment> \<open>\<^verbatim>\<open>fetch_posts(publication_id, start_date, end_date, expand=None)\<close> of
      \<^verbatim>\<open>newsletter_report.py\<close>\<close>
  "fetch_posts_expand api_key srv publication_id start_ts end_ts expand =
     fetch_loop api_key srv publication_id expand start_ts end_ts 1 []"

definition fetch_posts ::
  "string \<Rightarrow> server \<Rightarrow> string \<Rightarrow> int \<Rightarrow> int \<Rightarrow> (py_error + raw_post list) option" where
  \<comment> \<open>\<^verbatim>\<open>fetch_posts(publication_id, start_date, end_date)\<close> of
      \<^verbatim>\<open>generate_report.py\<close>, which always expands \<^verbatim>\<open>stats\<close> and \<^verbatim>\<open>clicks\<close>\<close>
  "fetch_posts api_key srv publication_id start_ts end_ts =
     fetch_loop api_key srv publication_id (Some [''stats'', ''clicks'']) start_ts end_ts 1 []"

text \<open>
  What a page is to the loop: the posts it carries, and whether the loop ends with it.
  \<open>last_page\<close> holds the three exits of the source; \<open>last_page_claimed\<close> only the two
  the specification names (an empty page, the reported page count reached).
\<close>

definition page_posts :: "server \<Rightarrow> string \<Rightarrow> string list option \<Rightarrow> int \<Rightarrow> raw_post list" where
  "page_posts srv publication_id expand page =
     dict_get (r_data (srv publication_id (page_request expand page))) []"

definition last_page_claimed :: "server \<Rightarrow> string \<Rightarrow> string list option \<Rightarrow> int \<Rightarrow> bool" where
  "last_page_claimed srv publication_id expand page =
     (let resp = srv publication_id (page_request expand page)
      in dict_get (r_data resp) [] = [] \<or> dict_get (r_total_pages resp) 1 \<le> page)"

definition last_page :: "server \<Rightarrow> string \<Rightarrow> string list option \<Rightarrow> int \<Rightarrow> bool" where
  "last_page srv publication_id expand page =
     (status_code (srv publication_id (page_request expand page)) \<noteq> 200 \<or>
      last_page_claimed srv publication_id expand page)"

definition accepted_posts :: "server \<Rightarrow> string \<Rightarrow> string list option \<Rightarrow> int \<Rightarrow> raw_post list" where
  \<comment> \<open>the posts of a page the loop reads: none when the status is not 200\<close>
  "accepted_posts srv publication_id expand page =
     (if status_code (srv publication_id (page_request expand page)) = 200
      then page_posts srv publication_id expand page else [])"

subsection \<open>Report builders\<close>

text \<open>
  The loop over \<^verbatim>\<open>PUBLICATIONS\<close> that \<^verbatim>\<open>generate_weekly_report\<close> and
  \<^verbatim>\<open>generate_monthly_report\<close> (\<^verbatim>\<open>generate_report.py\<close>) share line for line. The
  period boundaries, the period labels, the HTML and the chat message are not modelled:
  the builders take, for each publication in the table's order, its key and the two
  lists \<^verbatim>\<open>fetch_posts\<close> returned for the current and the previous period.
\<close>

datatype metric_key =
  PostsSent | AvgSent | Impressions | AvgUniqueOpens | TotalClicks | AvgUniqueClicks |
  Unsubscribes | AvgOpenRate | AvgClickRate

datatype totals_key = TPosts | TImpressions | TClicks | TAvgOpenRate

fun metric :: "metric_key \<Rightarrow> period_aggregate \<Rightarrow> rat" where
  \<comment> \<open>\<^verbatim>\<open>metrics[key]\<close>\<close>
  "metric PostsSent a = of_int (posts_sent a)"
| "metric AvgSent a = of_int (avg_sent a)"
| "metric Impressions a = of_int (agg_impressions a)"
| "metric AvgUniqueOpens a = of_int (avg_unique_opens a)"
| "metric TotalClicks a = of_int (total_clicks a)"
| "metric AvgUniqueClicks a = of_int (avg_unique_clicks a)"
| "metric Unsubscribes a = of_int (agg_unsubscribes a)"
| "metric AvgOpenRate a = avg_open_rate a"
| "metric AvgClickRate a = avg_click_rate a"

definition count_keys :: "metric_key list" where
  "count_keys =
     [PostsSent, AvgSent, Impressions, AvgUniqueOpens, TotalClicks, AvgUniqueClicks, Unsubscribes]"

definition rate_keys :: "metric_key list" where
  "rate_keys = [AvgOpenRate, AvgClickRate]"

fun mapE :: "('a \<Rightarrow> 'e + 'b) \<Rightarrow> 'a list \<Rightarrow> 'e + 'b list" where
  "mapE f [] = Inr []"
| "mapE f (x # xs) = bindE (f x) (\<lambda>y. bindE (mapE f xs) (\<lambda>ys. Inr (y # ys)))"

fun foldE :: "('s \<Rightarrow> 'a \<Rightarrow> 'e + 's) \<Rightarrow> 's \<Rightarrow> 'a list \<Rightarrow> 'e + 's" where
  "foldE f s [] = Inr s"
| "foldE f s (x # xs) = bindE (f s x) (\<lambda>s'. foldE f s' xs)"

definition prev_val :: "metric_key \<Rightarrow> period_aggregate option \<Rightarrow> rat" where
  \<comment> \<open>\<^verbatim>\<open>prev_metrics[key] if prev_metrics else 0\<close>\<close>
  "prev_val key prev_metrics = (case prev_metrics of None \<Rightarrow> 0 | Some pm \<Rightarrow> metric key pm)"

definition metric_changes ::
  "period_aggregate \<Rightarrow> period_aggregate option \<Rightarrow> py_error + (metric_key \<times> change_result) list" where
  \<comment> \<open>the dictionary \<^verbatim>\<open>changes\<close>, in the order its keys are set\<close>
  "metric_changes curr_metrics prev_metrics =
     bindE (mapE (\<lambda>key. bindE (calc_change (metric key curr_metrics) (prev_val key prev_metrics) False)
                           (\<lambda>c. Inr (key, c))) count_keys) (\<lambda>counts.
     bindE (mapE (\<lambda>key. bindE (calc_change (metric key curr_metrics) (prev_val key prev_metrics) True)
                           (\<lambda>c. Inr (key, c))) rate_keys) (\<lambda>rates.
       Inr (counts @ rates)))"

record pub_entry =
  pe_current :: period_aggregate
  pe_previous :: "period_aggregate option"
  pe_changes :: "(metric_key \<times> change_result) list"
  pe_top_clicks :: "link_click list"

record period_totals =
  tot_posts :: int
  tot_impressions :: int
  tot_clicks :: int
  open_rates :: "rat list"

record report_acc =
  publications :: "string \<rightharpoonup> pub_entry"
  totals_current :: period_totals
  totals_previous :: period_totals

definition empty_totals :: period_totals where
  "empty_totals = \<lparr>tot_posts = 0, tot_impressions = 0, tot_clicks = 0, open_rates = []\<rparr>"

definition empty_report :: report_acc where
  "empty_report =
     \<lparr>publications = Map.empty, totals_current = empty_totals, totals_previous = empty_totals\<rparr>"

definition add_to_totals :: "period_totals \<Rightarrow> period_aggregate \<Rightarrow> period_totals" where
  "add_to_totals t a =
     \<lparr>tot_posts = tot_posts t + posts_sent a,
      tot_impressions = tot_impressions t + agg_impressions a,
      tot_clicks = tot_clicks t + total_clicks a,
      open_rates = open_rates t @ [avg_open_rate a]\<rparr>"

definition tag_clicks :: "post_metrics \<Rightarrow> post_metrics" where
  \<comment> \<open>\<^verbatim>\<open>click['post_title'] = post['title']\<close> for every click of the post\<close>
  "tag_clicks post =
     post\<lparr>top_clicks := map (\<lambda>click. click\<lparr>post_title := Some (title post)\<rparr>) (top_clicks post)\<rparr>"

text \<open>
  One iteration of the loop. The click dictionaries that receive \<^verbatim>\<open>post_title\<close> are
  shared with the posts of \<^verbatim>\<open>curr_metrics['top_posts']\<close>, so the aggregate stored in
  the report carries the tagged clicks.
\<close>

definition publication_step ::
  "report_acc \<Rightarrow> string \<times> raw_post list \<times> raw_post list \<Rightarrow> py_error + report_acc" where
  "publication_step report_data fetched =
     (case fetched of (pub_key, curr_posts, prev_posts) \<Rightarrow>
        bindE (mapE process_post curr_posts) (\<lambda>curr_processed.
        bindE (mapE process_post prev_posts) (\<lambda>prev_processed.
        bindE (calc_metrics curr_processed) (\<lambda>curr_metrics.
        bindE (calc_metrics prev_processed) (\<lambda>prev_metrics.
          case curr_metrics of
            None \<Rightarrow> Inr report_data
          | Some cm \<Rightarrow>
              let all_clicks = sorted_desc link_clicks (concat (map (top_clicks \<circ> tag_clicks) curr_processed));
                  cm' = cm\<lparr>top_posts := map tag_clicks (top_posts cm)\<rparr>
              in bindE (metric_changes cm' prev_metrics) (\<lambda>changes.
                   Inr \<lparr>publications = (publications report_data)(pub_key \<mapsto>
                            \<lparr>pe_current = cm', pe_previous = prev_metrics, pe_changes = changes,
                             pe_top_clicks = take 5 all_clicks\<rparr>),
                        totals_current = add_to_totals (totals_current report_data) cm',
                        totals_previous =
                          (case prev_metrics of
                             None \<Rightarrow> totals_previous report_data
                           | Some pm \<Rightarrow> add_to_totals (totals_previous report_data) pm)\<rparr>))))))"

definition totals_avg_open_rate :: "period_totals \<Rightarrow> py_error + rat" where
  \<comment> \<open>\<^verbatim>\<open>sum(t['open_rates']) / len(t['open_rates']) if t['open_rates'] else 0\<close>\<close>
  "totals_avg_open_rate t =
     (if open_rates t = [] then Inr 0
      else py_truediv (sum_list (open_rates t)) (of_int (int (length (open_rates t)))))"

record report =
  rep_publications :: "string \<rightharpoonup> pub_entry"
  rep_current :: period_totals
  rep_current_avg_open_rate :: rat
  rep_previous :: period_totals
  rep_previous_avg_open_rate :: rat
  rep_changes :: "(totals_key \<times> change_result) list"

definition finish_report :: "report_acc \<Rightarrow> py_error + report" where
  \<comment> \<open>the statements after the loop, up to \<^verbatim>\<open>report_data['totals']['changes']\<close>\<close>
  "finish_report report_data =
     (let curr_t = totals_current report_data; prev_t = totals_previous report_data
      in bindE (totals_avg_open_rate curr_t) (\<lambda>curr_avg.
         bindE (totals_avg_open_rate prev_t) (\<lambda>prev_avg.
         bindE (calc_change (of_int (tot_posts curr_t)) (of_int (tot_posts prev_t)) False) (\<lambda>c_posts.
         bindE (calc_change (of_int (tot_impressions curr_t)) (of_int (tot_impressions prev_t)) False)
           (\<lambda>c_impressions.
         bindE (calc_change (of_int (tot_clicks curr_t)) (of_int (tot_clicks prev_t)) False) (\<lambda>c_clicks.
         bindE (calc_change curr_avg prev_avg True) (\<lambda>c_rate.
           Inr \<lparr>rep_publications = publications report_data,
                rep_current = curr_t,
                rep_current_avg_open_rate = curr_avg,
                rep_previous = prev_t,
                rep_previous_avg_open_rate = prev_avg,
                rep_changes = [(TPosts, c_posts), (TImpressions, c_impressions),
                               (TClicks, c_clicks), (TAvgOpenRate, c_rate)]\<rparr>)))))))"

definition build_report :: "(string \<times> raw_post list \<times> raw_post list) list \<Rightarrow> py_error + report" where
  "build_report fetched = bindE (foldE publication_step empty_report fetched) finish_report"

definition generate_weekly_report :: "(string \<times> raw_post list \<times> raw_post list) list \<Rightarrow> py_error + report" where
  \<comment> \<open>the \<^verbatim>\<open>report_data\<close> of \<^verbatim>\<open>generate_weekly_report\<close>, the lists being those of the
      week and of the week before\<close>
  "generate_weekly_report fetched = build_report fetched"

definition generate_monthly_report :: "(string \<times> raw_post list \<times> raw_post list) list \<Rightarrow> py_error + report" where
  \<comment> \<open>the \<^verbatim>\<open>report_data\<close> of \<^verbatim>\<open>generate_monthly_report\<close>, the lists being those of the
      month and of the comparison month\<close>
  "generate_monthly_report fetched = build_report fetched"

subsection \<open>Specification vocabulary and sample inputs\<close>

definition arith_mean :: "rat list \<Rightarrow> rat" where
  \<comment> \<open>the arithmetic mean the specification speaks of: the sum over the count\<close>
  "arith_mean xs = sum_list xs / of_nat (length xs)"

definition na_change :: change_result where
  \<comment> \<open>the "not applicable" sentinel\<close>
  "na_change = \<lparr>value' = 0, display = ''N/A'', positive = True\<rparr>"

definition blank_metrics :: post_metrics where
  "blank_metrics =
     \<lparr>title = [], date = 0, recipients = 0, opens = 0, unique_opens = 0, open_rate = 0,
      clicks = 0, unique_clicks = 0, click_rate = 0, unsubscribes = 0, web_views = 0,
      impressions = 0, top_clicks = []\<rparr>"

definition blank_data :: post_data where
  "blank_data =
     \<lparr>title = [], date = 0, recipients = 0, opens = 0, unique_opens = 0, open_rate = 0,
      clicks = 0, unique_clicks = 0, click_rate = 0, unsubscribes = 0, web_views = 0,
      impressions = 0, publication = ''ETL Daily'', post_id = []\<rparr>"

definition week_post :: "string \<Rightarrow> rat \<Rightarrow> int \<Rightarrow> int \<Rightarrow> int \<Rightarrow> post_metrics" where
  \<comment> \<open>a post of the sample week: 6732 recipients, 3128 unique opens, 19 unique clicks\<close>
  "week_post t rate imp clk unsub =
     \<lparr>title = t, date = 0, recipients = 6732, opens = imp, unique_opens = 3128,
      open_rate = rate, clicks = clk, unique_clicks = 19, click_rate = 3 / 5,
      unsubscribes = unsub, web_views = 0, impressions = imp, top_clicks = []\<rparr>"

definition sample_week :: "post_metrics list" where
  \<comment> \<open>five posts with the figures of the sample report (\<^verbatim>\<open>test_report.py\<close>, ETL Daily):
      its three top posts, and two more that bring the sums to the sample's totals\<close>
  "sample_week =
     [week_post ''Otro dia'' (461 / 10) 4342 90 2,
      week_post ''Empleos down planes up'' (4677 / 100) 4571 61 2,
      week_post ''El crimen baja la gripe sube'' (4658 / 100) 4377 21 2,
      week_post ''SNAP back'' (937 / 20) 4419 71 2,
      week_post ''Ultimo'' (921 / 20) 4342 87 1]"

definition uneven_pair :: "post_metrics list" where
  \<comment> \<open>two posts sent to 1 and to 2 recipients\<close>
  "uneven_pair = [blank_metrics\<lparr>recipients := 1\<rparr>, blank_metrics\<lparr>recipients := 2\<rparr>]"

definition uneven_rows :: "post_data list" where
  "uneven_rows = [blank_data\<lparr>recipients := 1\<rparr>, blank_data\<lparr>recipients := 2\<rparr>]"

definition post_of_email :: "raw_email \<Rightarrow> raw_post" where
  \<comment> \<open>a raw post that carries email statistics only\<close>
  "post_of_email e =
     \<lparr>j_id = None, j_title = None, j_publish_date = None,
      j_stats = Some \<lparr>j_email = Some e, j_web = None\<rparr>, j_post_clicks = None\<rparr>"

definition over_opened_post :: raw_post where
  \<comment> \<open>1 recipient, 2 unique opens\<close>
  "over_opened_post =
     post_of_email (empty_email\<lparr>j_recipients := Some 1, j_unique_opens := Some 2\<rparr>)"

definition quarter_opened_post :: raw_post where
  \<comment> \<open>4 recipients, 1 unique open, 2 unique clicks\<close>
  "quarter_opened_post =
     post_of_email (empty_email\<lparr>j_recipients := Some 4, j_unique_opens := Some 1,
       j_unique_clicks := Some 2\<rparr>)"

definition click_of :: "string \<Rightarrow> int \<Rightarrow> raw_click" where
  "click_of u n =
     \<lparr>j_url = Some u, j_description = None, j_total_clicks = Some n,
      j_total_unique_clicks = None\<rparr>"

definition six_clicks_post :: raw_post where
  \<comment> \<open>six link-click records, the last one the most clicked\<close>
  "six_clicks_post =
     \<lparr>j_id = None, j_title = Some ''Six'', j_publish_date = None, j_stats = None,
      j_post_clicks = Some [click_of ''a'' 1, click_of ''b'' 2, click_of ''c'' 3,
        click_of ''d'' 4, click_of ''e'' 5, click_of ''f'' 6]\<rparr>"

definition raw_recipients :: "raw_post \<Rightarrow> int" where
  \<comment> \<open>\<^verbatim>\<open>post.get("stats", {}).get("email", {}).get("recipients", 0)\<close>\<close>
  "raw_recipients post =
     dict_get (j_recipients (dict_get (j_email (dict_get (j_stats post) empty_stats)) empty_email)) 0"

definition raw_unique_opens :: "raw_post \<Rightarrow> int" where
  "raw_unique_opens post =
     dict_get (j_unique_opens (dict_get (j_email (dict_get (j_stats post) empty_stats)) empty_email)) 0"

definition post_open_rate :: "raw_post \<Rightarrow> rat" where
  \<comment> \<open>the glossary's open rate: unique opens over recipients, in percent; 0 without
      recipients\<close>
  "post_open_rate post =
     (if 0 < raw_recipients post
      then of_int (raw_unique_opens post) / of_int (raw_recipients post) * 100 else 0)"

definition publication_open_rate :: "raw_post list \<Rightarrow> rat" where
  \<comment> \<open>the average open rate of one publication: the mean over its posts\<close>
  "publication_open_rate posts = arith_mean (map post_open_rate posts)"

text \<open>
  The normalizer, the aggregator and the comparisons never raise (see below), so each has
  a value; the second branch of each \<open>case\<close> is never taken.
\<close>

definition normalized :: "raw_post \<Rightarrow> post_metrics" where
  "normalized post = (case process_post post of Inr m \<Rightarrow> m | Inl e \<Rightarrow> blank_metrics)"

definition aggregate :: "raw_post list \<Rightarrow> period_aggregate option" where
  "aggregate raw_posts =
     (case calc_metrics (map normalized raw_posts) of Inr a \<Rightarrow> a | Inl e \<Rightarrow> None)"

definition all_na :: "(metric_key \<times> change_result) list" where
  \<comment> \<open>every tracked metric compared as "not applicable"\<close>
  "all_na = map (\<lambda>key. (key, na_change)) (count_keys @ rate_keys)"

definition has_current :: "string \<times> raw_post list \<times> raw_post list \<Rightarrow> bool" where
  \<comment> \<open>the publication has a post in the current period\<close>
  "has_current fetched = (fst (snd fetched) \<noteq> [])"

definition has_both :: "string \<times> raw_post list \<times> raw_post list \<Rightarrow> bool" where
  \<comment> \<open>the publication has a post in the current period and one in the previous period\<close>
  "has_both fetched = (fst (snd fetched) \<noteq> [] \<and> snd (snd fetched) \<noteq> [])"

definition fully_opened_post :: raw_post where
  \<comment> \<open>1 recipient, 1 unique open: open rate 100\<close>
  "fully_opened_post =
     post_of_email (empty_email\<lparr>j_recipients := Some 1, j_unique_opens := Some 1\<rparr>)"

definition unopened_post :: raw_post where
  \<comment> \<open>1 recipient, no open: open rate 0\<close>
  "unopened_post = post_of_email (empty_email\<lparr>j_recipients := Some 1\<rparr>)"

definition two_publications :: "(string \<times> raw_post list \<times> raw_post list) list" where
  \<comment> \<open>one post at 100 percent for the first publication, three at 0 percent for the second\<close>
  "two_publications =
     [(''ETL Daily'', [fully_opened_post], []),
      (''EP Daily'', [unopened_post, unopened_post, unopened_post], [fully_opened_post])]"

definition silent_publication :: "(string \<times> raw_post list \<times> raw_post list) list" where
  \<comment> \<open>the second publication sent nothing in the current period, one post in the
      previous one\<close>
  "silent_publication =
     [(''ETL Daily'', [fully_opened_post], [unopened_post]),
      (''EP Daily'', [], [fully_opened_post])]"

definition stub_post :: "int \<Rightarrow> raw_post" where
  \<comment> \<open>a post known by its publish timestamp only\<close>
  "stub_post ts =
     \<lparr>j_id = None, j_title = None, j_publish_date = Some ts, j_stats = None,
      j_post_clicks = None\<rparr>"

definition stub_page :: "int \<Rightarrow> int \<Rightarrow> raw_post list" where
  \<comment> \<open>the posts published at the timestamps \<open>i, ..., j\<close>, one each\<close>
  "stub_page i j = map stub_post [i..j]"

definition stub_server :: server where
  \<comment> \<open>two pages of 100 and 37 posts, \<^verbatim>\<open>total_pages = 2\<close>; nothing beyond\<close>
  "stub_server publication_id rq =
     (if rq_page rq = 1 then
        \<lparr>status_code = 200, r_data = Some (stub_page 0 99), r_total_pages = Some 2\<rparr>
      else if rq_page rq = 2 then
        \<lparr>status_code = 200, r_data = Some (stub_page 100 136), r_total_pages = Some 2\<rparr>
      else \<lparr>status_code = 200, r_data = Some [], r_total_pages = Some 2\<rparr>)"

definition failing_server :: server where
  \<comment> \<open>a first page of one post out of two pages, then status 500 with a body that
      carries a post all the same\<close>
  "failing_server publication_id rq =
     (if rq_page rq = 1 then
        \<lparr>status_code = 200, r_data = Some [stub_post 1], r_total_pages = Some 2\<rparr>
      else \<lparr>status_code = 500, r_data = Some [stub_post 2], r_total_pages = Some 2\<rparr>)"

section \<open>Properties\<close>

subsection \<open>Auxiliary facts\<close>

lemma bindE_Inr [simp]: "bindE (Inr v) f = f v"
  by (simp add: bindE_def)

lemma bindE_Inl [simp]: "bindE (Inl e) f = Inl e"
  by (simp add: bindE_def)

lemma rate_pct_eq:
  "rate_pct n r = Inr (if 0 < r then of_int n / of_int r * 100 else 0)"
  by (simp add: rate_pct_def py_truediv_def)

lemma round_half_even_between:
  assumes "of_int a \<le> y" and "y \<le> of_int b"
  shows "a \<le> round_half_even y \<and> round_half_even y \<le> b"
proof -
  have lo: "a \<le> \<lfloor>y\<rfloor>" using assms(1) by (simp add: le_floor_iff)
  have hi: "\<lfloor>y\<rfloor> \<le> b" using assms(2) by (simp add: floor_le_iff)
  show ?thesis
  proof (cases "\<lfloor>y\<rfloor> = b")
    case True
    then have "y = of_int b" using assms(2) by (metis of_int_floor_le order_antisym)
    then show ?thesis using lo by (simp add: round_half_even_def Let_def)
  next
    case False
    then have "\<lfloor>y\<rfloor> + 1 \<le> b" using hi by simp
    then show ?thesis using lo by (auto simp: round_half_even_def Let_def)
  qed
qed

lemma round_half_even_error: "\<bar>of_int (round_half_even y) - y\<bar> \<le> 1 / 2"
proof -
  define f where "f = \<lfloor>y\<rfloor>"
  define d where "d = y - of_int f"
  have d0: "0 \<le> d" and d1: "d < 1"
    unfolding d_def f_def by linarith+
  have y: "y = of_int f + d" by (simp add: d_def)
  have r: "round_half_even y = (if d < 1 / 2 then f else if 1 / 2 < d then f + 1
         else if even f then f else f + 1)"
    by (simp add: round_half_even_def Let_def f_def d_def)
  have "\<bar>of_int (if d < 1 / 2 then f else if 1 / 2 < d then f + 1
         else if even f then f else f + 1) - (of_int f + d)\<bar> \<le> 1 / 2"
    using d0 d1 by (auto simp: abs_if)
  then show ?thesis using r y by simp
qed

lemma round_half_even_nonneg: "0 \<le> y \<Longrightarrow> 0 \<le> round_half_even y"
  using round_half_even_between[of 0 y "\<lceil>y\<rceil>"] by simp

lemma py_round2_percent:
  assumes "0 \<le> x" and "x \<le> 100"
  shows "0 \<le> py_round2 x \<and> py_round2 x \<le> 100"
proof -
  have "of_int 0 \<le> x * 100" using assms by simp
  moreover have "x * 100 \<le> of_int 10000" using assms by simp
  ultimately have "0 \<le> round_half_even (x * 100) \<and> round_half_even (x * 100) \<le> 10000"
    by (rule round_half_even_between)
  then show ?thesis by (simp add: py_round2_def)
qed

lemma py_round2_zero [simp]: "py_round2 0 = 0"
  by (simp add: py_round2_def round_half_even_def)

lemma ratio_percent:
  fixes n r :: int
  assumes "0 < r" "0 \<le> n" "n \<le> r"
  shows "0 \<le> (of_int n / of_int r * 100 :: rat) \<and> (of_int n / of_int r * 100 :: rat) \<le> 100"
  using assms by (simp add: divide_le_eq)

lemma process_post_fields:
  assumes "process_post post = Inr m"
  shows "open_rate m =
           (if 0 < recipients m then of_int (unique_opens m) / of_int (recipients m) * 100 else 0)"
    and "click_rate m =
           (if 0 < recipients m then of_int (unique_clicks m) / of_int (recipients m) * 100 else 0)"
    and "top_clicks m = map process_click (take 5 (dict_get (j_post_clicks post) []))"
  using assms by (auto simp: process_post_def Let_def rate_pct_eq)

lemma process_post_data_fields:
  assumes "process_post_data post pub = Inr d"
  shows "open_rate d = py_round2
           (if 0 < recipients d then of_int (unique_opens d) / of_int (recipients d) * 100 else 0)"
    and "click_rate d = py_round2
           (if 0 < recipients d then of_int (unique_clicks d) / of_int (recipients d) * 100 else 0)"
  using assms by (auto simp: process_post_data_def Let_def rate_pct_eq)

lemma process_post_total: "\<exists>m. process_post post = Inr m"
  by (simp add: process_post_def Let_def rate_pct_eq)

lemma process_post_data_total: "\<exists>d. process_post_data post pub = Inr d"
  by (simp add: process_post_data_def Let_def rate_pct_eq)

lemma sum_list_of_int:
  "sum_list (map (\<lambda>x. rat_of_int (f x)) xs) = of_int (sum_list (map f xs))"
  by (induction xs) simp_all

lemma arith_mean_ints:
  "arith_mean (map (rat_of_int \<circ> f) xs) = of_int (sum_list (map f xs)) / of_nat (length xs)"
  by (simp add: arith_mean_def comp_def sum_list_of_int)

lemma py_int_nonneg_div:
  assumes "0 \<le> s"
  shows "py_int (of_int s / of_nat n) = s div int n"
proof -
  have "\<lfloor>rat_of_int s / of_int (int n)\<rfloor> = s div int n"
    by (rule floor_divide_of_int_eq)
  then show ?thesis using assms by (simp add: py_int_def)
qed

lemma calc_metrics_nonempty:
  assumes "posts \<noteq> []"
  shows "calc_metrics posts = Inr (Some
     \<lparr>posts_sent = int (length posts),
      avg_sent = py_int (arith_mean (map (rat_of_int \<circ> recipients) posts)),
      agg_impressions = sum_list (map impressions posts),
      avg_unique_opens = py_int (arith_mean (map (rat_of_int \<circ> unique_opens) posts)),
      avg_open_rate = arith_mean (map open_rate posts),
      total_clicks = sum_list (map clicks posts),
      avg_unique_clicks = py_int (arith_mean (map (rat_of_int \<circ> unique_clicks) posts)),
      avg_click_rate = arith_mean (map click_rate posts),
      agg_unsubscribes = sum_list (map unsubscribes posts),
      top_posts = take 3 (sorted_desc open_rate posts)\<rparr>)"
  using assms
  by (simp add: calc_metrics_def Let_def py_truediv_def arith_mean_def comp_def sum_list_of_int)

lemma weekly_summary_nonempty:
  assumes "pub_posts \<noteq> []"
  shows "weekly_summary_metrics pub_posts = Inr (Some
     \<lparr>post_count = int (length pub_posts),
      sm_avg_sent = arith_mean (map (rat_of_int \<circ> recipients) pub_posts),
      total_impressions = sum_list (map impressions pub_posts),
      sm_avg_unique_opens = arith_mean (map (rat_of_int \<circ> unique_opens) pub_posts),
      sm_avg_open_rate = arith_mean (map open_rate pub_posts),
      sm_total_clicks = sum_list (map clicks pub_posts),
      sm_avg_unique_clicks = arith_mean (map (rat_of_int \<circ> unique_clicks) pub_posts),
      sm_avg_click_rate = arith_mean (map click_rate pub_posts),
      total_unsubs = sum_list (map unsubscribes pub_posts)\<rparr>)"
  using assms
  by (simp add: weekly_summary_metrics_def Let_def py_truediv_def arith_mean_def comp_def
      sum_list_of_int)

lemma calc_metrics_total: "\<exists>a. calc_metrics posts = Inr a"
proof (cases "posts = []")
  case True
  then show ?thesis by (simp add: calc_metrics_def)
next
  case False
  then show ?thesis by (simp add: calc_metrics_nonempty)
qed

lemma calc_change_total: "\<exists>c. calc_change current previous is_percentage = Inr c"
  by (simp add: calc_change_def py_truediv_def Let_def)

lemma str_nat_digit: "n < 10 \<Longrightarrow> str_nat n = [digit_char n]"
  by (simp add: str_nat.simps)

lemma format_plus_1f_shape:
  "\<exists>n. format_plus_f 1 z x =
          (if x < 0 \<or> z then ''-'' else ''+'') @ str_nat (n div 10) @ ''.'' @ [digit_char (n mod 10)]
        \<and> \<bar>of_nat n / 10 - \<bar>x\<bar>\<bar> \<le> 1 / 20"
proof -
  define n where "n = nat (round_half_even (\<bar>x\<bar> * 10))"
  have nn: "0 \<le> round_half_even (\<bar>x\<bar> * 10)"
    by (rule round_half_even_nonneg) simp
  then have "(of_nat n :: rat) = of_int (round_half_even (\<bar>x\<bar> * 10))"
    by (simp add: n_def)
  moreover have "\<bar>of_int (round_half_even (\<bar>x\<bar> * 10)) - \<bar>x\<bar> * 10\<bar> \<le> 1 / 2"
    by (rule round_half_even_error)
  ultimately have "\<bar>of_nat n - \<bar>x\<bar> * 10\<bar> \<le> 1 / 2" by simp
  then have err: "\<bar>of_nat n / 10 - \<bar>x\<bar>\<bar> \<le> 1 / 20"
    by (simp add: abs_if split: if_splits)
  have "format_plus_f 1 z x =
          (if x < 0 \<or> z then ''-'' else ''+'') @ str_nat (n div 10) @ ''.'' @ [digit_char (n mod 10)]"
    by (simp add: format_plus_f_def Let_def n_def [symmetric] str_nat_digit zfill_def)
  with err show ?thesis by blast
qed

lemma format_plus_100: "format_plus_f 1 False 100 = ''+100.0''"
  apply (simp add: format_plus_f_def Let_def)
  apply (simp add: round_half_even_def Let_def)
  apply (simp add: str_nat.simps digit_char_def zfill_def)
  done

lemma format_minus_50: "format_plus_f 1 False (- 50) = ''-50.0''"
  apply (simp add: format_plus_f_def Let_def)
  apply (simp add: round_half_even_def Let_def)
  apply (simp add: str_nat.simps digit_char_def zfill_def)
  done

text \<open>
  C1. When the previous value is zero, \<open>calc_change\<close> returns the sentinel
  \<open>{value: 0, display: "N/A", positive: true}\<close>, whatever the current value and
  whatever the kind (count-like or rate-like).
\<close>

theorem calc_change_zero_previous:
  "calc_change current 0 is_percentage =
     Inr \<lparr>value' = 0, display = ''N/A'', positive = True\<rparr>"
  by (simp add: calc_change_def)

text \<open>
  C10. No division of the core pipeline can fail: \<open>process_post\<close>, \<open>calc_metrics\<close> and
  \<open>calc_change\<close> return a result on every input, never \<open>ZeroDivisionError\<close>.
\<close>

theorem divisions_guarded:
  "(\<exists>m. process_post post = Inr m) \<and> (\<exists>a. calc_metrics posts = Inr a) \<and>
   (\<exists>c. calc_change current previous is_percentage = Inr c)"
  using process_post_total calc_metrics_total calc_change_total by blast

theorem divisions_guarded_witness:
  "(\<exists>m. process_post over_opened_post = Inr m) \<and> (\<exists>a. calc_metrics [] = Inr a) \<and>
   (\<exists>c. calc_change 1 0 False = Inr c)"
  using divisions_guarded [of over_opened_post "[]" 1 0 False] by simp




text \<open>
  C8. \<open>process_post\<close> keeps the first five link-click records of a post,
  in the order of the API's list and whatever their click counts;
  \<open>process_clicks_data\<close>, the click extraction of the CSV script, keeps every record.
\<close>

theorem click_records_cap:
  assumes "process_post post = Inr m"
  shows "top_clicks m = map process_click (take 5 (dict_get (j_post_clicks post) [])) \<and>
         length (top_clicks m) \<le> 5 \<and>
         length (process_clicks_data post pub) = length (dict_get (j_post_clicks post) []) \<and>
         map link_url (process_clicks_data post pub) =
           map (\<lambda>click. dict_get (j_url click) []) (dict_get (j_post_clicks post) [])"
  using process_post_fields(3)[OF assms] by (simp add: process_clicks_data_def comp_def)

theorem click_records_cap_witness:
  "\<exists>m. process_post six_clicks_post = Inr m \<and>
        map url (top_clicks m) = [''a'', ''b'', ''c'', ''d'', ''e''] \<and>
        map link_clicks (top_clicks m) = [1, 2, 3, 4, 5] \<and>
        map link_url (process_clicks_data six_clicks_post ''ETL Daily'') =
          [''a'', ''b'', ''c'', ''d'', ''e'', ''f'']"
proof -
  obtain m where m: "process_post six_clicks_post = Inr m"
    using process_post_total by blast
  from click_records_cap [OF m, of "''ETL Daily''"] m show ?thesis
    by (simp add: six_clicks_post_def click_of_def dict_get_def process_click_def)
qed

theorem all_clicks_exported_counterexample:
  "length (dict_get (j_post_clicks six_clicks_post) []) = 6 \<and>
   length (process_clicks_data six_clicks_post ''ETL Daily'') = 6 \<and> \<not> (6 \<le> (5 :: nat))"
  by (simp add: process_clicks_data_def six_clicks_post_def dict_get_def)


lemma sample_week_sorted:
  "take 3 (sorted_desc open_rate sample_week) =
     [week_post ''SNAP back'' (937 / 20) 4419 71 2,
      week_post ''Empleos down planes up'' (4677 / 100) 4571 61 2,
      week_post ''El crimen baja la gripe sube'' (4658 / 100) 4377 21 2]"
  by (simp add: sorted_desc_def sample_week_def week_post_def)





subsection \<open>The report loop, step by step\<close>

lemma process_post_normalized: "process_post post = Inr (normalized post)"
  using process_post_total [of post] by (auto simp: normalized_def)

lemma mapE_process_post: "mapE process_post xs = Inr (map normalized xs)"
  by (induction xs) (simp_all add: process_post_normalized)

lemma calc_metrics_aggregate: "calc_metrics (map normalized xs) = Inr (aggregate xs)"
  using calc_metrics_total [of "map normalized xs"] by (auto simp: aggregate_def)

lemma aggregate_Nil: "aggregate [] = None"
  by (simp add: aggregate_def calc_metrics_def)

lemma open_rate_normalized: "open_rate (normalized post) = post_open_rate post"
proof -
  have "recipients m = raw_recipients post \<and> unique_opens m = raw_unique_opens post"
    if "process_post post = Inr m" for m
    using that
    by (auto simp: process_post_def Let_def rate_pct_eq raw_recipients_def raw_unique_opens_def)
  then have "recipients (normalized post) = raw_recipients post"
       "unique_opens (normalized post) = raw_unique_opens post"
    using process_post_normalized [of post] by blast+
  then show ?thesis
    using process_post_fields(1) [OF process_post_normalized, of post]
    by (simp add: post_open_rate_def)
qed

lemma aggregate_nonempty:
  assumes "xs \<noteq> []"
  shows "\<exists>a. aggregate xs = Some a \<and> avg_open_rate a = publication_open_rate xs \<and>
             posts_sent a = int (length xs)"
proof -
  have ne: "map normalized xs \<noteq> []" using assms by simp
  have "open_rate \<circ> normalized = post_open_rate"
    by (simp add: fun_eq_iff open_rate_normalized)
  then show ?thesis
    using calc_metrics_nonempty [OF ne] calc_metrics_aggregate [of xs]
    by (simp add: publication_open_rate_def)
qed

lemma calc_change_na: "calc_change c 0 k = Inr na_change"
  by (simp add: calc_change_def na_change_def)

lemma metric_changes_None: "metric_changes cm None = Inr all_na"
  by (simp add: metric_changes_def prev_val_def calc_change_na all_na_def count_keys_def
      rate_keys_def)

lemma mapE_total:
  assumes "\<And>x. \<exists>y. f x = Inr y"
  shows "\<exists>ys. mapE f xs = Inr ys"
proof (induction xs)
  case Nil
  show ?case by simp
next
  case (Cons x xs)
  then obtain ys where ys: "mapE f xs = Inr ys" by blast
  obtain y where y: "f x = Inr y" using assms by blast
  show ?case by (simp add: ys y)
qed

lemma metric_changes_total: "\<exists>ch. metric_changes cm pm = Inr ch"
proof -
  have step: "\<exists>y. bindE (calc_change (metric key cm) (prev_val key pm) b) (\<lambda>c. Inr (key, c)) = Inr y"
    for key b
    using calc_change_total [of "metric key cm" "prev_val key pm" b] by auto
  obtain counts where c:
    "mapE (\<lambda>key. bindE (calc_change (metric key cm) (prev_val key pm) False) (\<lambda>c. Inr (key, c)))
       count_keys = Inr counts"
    using mapE_total [of "\<lambda>key. bindE (calc_change (metric key cm) (prev_val key pm) False)
       (\<lambda>c. Inr (key, c))" count_keys] step by blast
  obtain rates where r:
    "mapE (\<lambda>key. bindE (calc_change (metric key cm) (prev_val key pm) True) (\<lambda>c. Inr (key, c)))
       rate_keys = Inr rates"
    using mapE_total [of "\<lambda>key. bindE (calc_change (metric key cm) (prev_val key pm) True)
       (\<lambda>c. Inr (key, c))" rate_keys] step by blast
  show ?thesis by (simp add: metric_changes_def c r)
qed

lemma publication_step_empty: "publication_step acc (pub_key, [], prev_posts) = Inr acc"
  by (simp add: publication_step_def mapE_process_post calc_metrics_aggregate aggregate_Nil
      del: mapE.simps)

lemma add_to_totals_tagged:
  "add_to_totals t (a\<lparr>top_posts := tp\<rparr>) = add_to_totals t a"
  by (simp add: add_to_totals_def)

lemma publication_step_nonempty:
  assumes "curr_posts \<noteq> []"
  shows "\<exists>cm e.
    aggregate curr_posts = Some cm \<and>
    pe_previous e = aggregate prev_posts \<and>
    (aggregate prev_posts = None \<longrightarrow> pe_changes e = all_na) \<and>
    publication_step acc (pub_key, curr_posts, prev_posts) =
      Inr \<lparr>publications = (publications acc)(pub_key \<mapsto> e),
           totals_current = add_to_totals (totals_current acc) cm,
           totals_previous =
             (case aggregate prev_posts of
                None \<Rightarrow> totals_previous acc
              | Some pm \<Rightarrow> add_to_totals (totals_previous acc) pm)\<rparr>"
proof -
  obtain cm where cm: "aggregate curr_posts = Some cm"
    using aggregate_nonempty [OF assms] by blast
  define cm' where "cm' = cm\<lparr>top_posts := map tag_clicks (top_posts cm)\<rparr>"
  obtain ch where ch: "metric_changes cm' (aggregate prev_posts) = Inr ch"
    using metric_changes_total by blast
  have na: "aggregate prev_posts = None \<longrightarrow> ch = all_na"
    using ch metric_changes_None [of cm'] by auto
  define e where "e = \<lparr>pe_current = cm', pe_previous = aggregate prev_posts, pe_changes = ch,
     pe_top_clicks = take 5 (sorted_desc link_clicks
       (concat (map (top_clicks \<circ> tag_clicks) (map normalized curr_posts))))\<rparr>"
  have st: "publication_step acc (pub_key, curr_posts, prev_posts) =
      Inr \<lparr>publications = (publications acc)(pub_key \<mapsto> e),
           totals_current = add_to_totals (totals_current acc) cm,
           totals_previous =
             (case aggregate prev_posts of
                None \<Rightarrow> totals_previous acc
              | Some pm \<Rightarrow> add_to_totals (totals_previous acc) pm)\<rparr>"
    using ch
    by (simp add: publication_step_def mapE_process_post calc_metrics_aggregate cm Let_def
        cm'_def [symmetric] e_def add_to_totals_tagged del: mapE.simps)
  have pp: "pe_previous e = aggregate prev_posts" by (simp add: e_def)
  have pc: "aggregate prev_posts = None \<longrightarrow> pe_changes e = all_na"
    using na by (simp add: e_def)
  show ?thesis
    by (rule exI [of _ cm], rule exI [of _ e], intro conjI) (rule cm pp pc st)+
qed


lemma publication_step_effect:
  "\<exists>acc'. publication_step acc f = Inr acc' \<and>
     open_rates (totals_current acc') =
       open_rates (totals_current acc) @ map (publication_open_rate \<circ> fst \<circ> snd) (filter has_current [f]) \<and>
     open_rates (totals_previous acc') =
       open_rates (totals_previous acc) @ map (publication_open_rate \<circ> snd \<circ> snd) (filter has_both [f]) \<and>
     dom (publications acc') = dom (publications acc) \<union> fst ` set (filter has_current [f])"
proof -
  obtain k c p where f: "f = (k, c, p)" by (cases f) auto
  show ?thesis
  proof (cases "c = []")
    case True
    then show ?thesis
      by (simp add: f publication_step_empty has_current_def has_both_def)
  next
    case False
    from publication_step_nonempty [OF False, of p acc k]
    obtain cm e where cm: "aggregate c = Some cm"
      and st: "publication_step acc (k, c, p) =
        Inr \<lparr>publications = (publications acc)(k \<mapsto> e),
             totals_current = add_to_totals (totals_current acc) cm,
             totals_previous =
               (case aggregate p of
                  None \<Rightarrow> totals_previous acc
                | Some pm \<Rightarrow> add_to_totals (totals_previous acc) pm)\<rparr>"
      by blast
    have rc: "avg_open_rate cm = publication_open_rate c"
      using aggregate_nonempty [OF False] cm by auto
    show ?thesis
    proof (cases "p = []")
      case True
      then show ?thesis
        using False rc st
        by (simp add: f aggregate_Nil has_current_def has_both_def add_to_totals_def)
    next
      case pne: False
      obtain pm where pm: "aggregate p = Some pm" "avg_open_rate pm = publication_open_rate p"
        using aggregate_nonempty [OF pne] by blast
      show ?thesis
        using False pne rc pm st
        by (simp add: f has_current_def has_both_def add_to_totals_def)
    qed
  qed
qed

lemma foldE_publication_step:
  "\<exists>acc'. foldE publication_step acc fetched = Inr acc' \<and>
     open_rates (totals_current acc') =
       open_rates (totals_current acc) @ map (publication_open_rate \<circ> fst \<circ> snd) (filter has_current fetched) \<and>
     open_rates (totals_previous acc') =
       open_rates (totals_previous acc) @ map (publication_open_rate \<circ> snd \<circ> snd) (filter has_both fetched) \<and>
     dom (publications acc') = dom (publications acc) \<union> fst ` set (filter has_current fetched)"
proof (induction fetched arbitrary: acc)
  case Nil
  show ?case by simp
next
  case (Cons f fs)
  obtain acc1 where 1: "publication_step acc f = Inr acc1"
    and c1: "open_rates (totals_current acc1) =
       open_rates (totals_current acc) @ map (publication_open_rate \<circ> fst \<circ> snd) (filter has_current [f])"
    and p1: "open_rates (totals_previous acc1) =
       open_rates (totals_previous acc) @ map (publication_open_rate \<circ> snd \<circ> snd) (filter has_both [f])"
    and d1: "dom (publications acc1) = dom (publications acc) \<union> fst ` set (filter has_current [f])"
    using publication_step_effect [of acc f] by blast
  obtain acc2 where 2: "foldE publication_step acc1 fs = Inr acc2"
    and c2: "open_rates (totals_current acc2) =
       open_rates (totals_current acc1) @ map (publication_open_rate \<circ> fst \<circ> snd) (filter has_current fs)"
    and p2: "open_rates (totals_previous acc2) =
       open_rates (totals_previous acc1) @ map (publication_open_rate \<circ> snd \<circ> snd) (filter has_both fs)"
    and d2: "dom (publications acc2) = dom (publications acc1) \<union> fst ` set (filter has_current fs)"
    using Cons.IH [of acc1] by blast
  have "foldE publication_step acc (f # fs) = Inr acc2" by (simp add: 1 2)
  moreover have "open_rates (totals_current acc2) =
       open_rates (totals_current acc) @ map (publication_open_rate \<circ> fst \<circ> snd) (filter has_current (f # fs))"
    by (simp add: c1 c2)
  moreover have "open_rates (totals_previous acc2) =
       open_rates (totals_previous acc) @ map (publication_open_rate \<circ> snd \<circ> snd) (filter has_both (f # fs))"
    by (simp add: p1 p2)
  moreover have "dom (publications acc2) =
       dom (publications acc) \<union> fst ` set (filter has_current (f # fs))"
    unfolding d2 d1 by auto
  ultimately show ?case by blast
qed

lemma foldE_skips_silent:
  "foldE publication_step acc (filter has_current fetched) = foldE publication_step acc fetched"
proof (induction fetched arbitrary: acc)
  case Nil
  show ?case by simp
next
  case (Cons f fs)
  show ?case
  proof (cases "has_current f")
    case True
    then show ?thesis by (simp add: Cons.IH)
  next
    case False
    then obtain k p where "f = (k, [], p)" by (cases f) (auto simp: has_current_def)
    then show ?thesis using False by (simp add: publication_step_empty Cons.IH)
  qed
qed

lemma totals_avg_open_rate_eq:
  "totals_avg_open_rate t = Inr (if open_rates t = [] then 0 else arith_mean (open_rates t))"
  by (simp add: totals_avg_open_rate_def py_truediv_def arith_mean_def)

lemma finish_report_value:
  "\<exists>rep. finish_report acc = Inr rep \<and> rep_publications rep = publications acc \<and>
     rep_current rep = totals_current acc \<and> rep_previous rep = totals_previous acc \<and>
     rep_current_avg_open_rate rep =
       (if open_rates (totals_current acc) = [] then 0
        else arith_mean (open_rates (totals_current acc))) \<and>
     rep_previous_avg_open_rate rep =
       (if open_rates (totals_previous acc) = [] then 0
        else arith_mean (open_rates (totals_previous acc)))"
proof -
  obtain c1 where c1: "calc_change (of_int (tot_posts (totals_current acc)))
      (of_int (tot_posts (totals_previous acc))) False = Inr c1"
    using calc_change_total by blast
  obtain c2 where c2: "calc_change (of_int (tot_impressions (totals_current acc)))
      (of_int (tot_impressions (totals_previous acc))) False = Inr c2"
    using calc_change_total by blast
  obtain c3 where c3: "calc_change (of_int (tot_clicks (totals_current acc)))
      (of_int (tot_clicks (totals_previous acc))) False = Inr c3"
    using calc_change_total by blast
  obtain c4 where c4: "calc_change
      (if open_rates (totals_current acc) = [] then 0
        else arith_mean (open_rates (totals_current acc)))
      (if open_rates (totals_previous acc) = [] then 0
        else arith_mean (open_rates (totals_previous acc))) True = Inr c4"
    using calc_change_total by blast
  show ?thesis
    by (simp add: finish_report_def Let_def totals_avg_open_rate_eq c1 c2 c3 c4)
qed

lemma build_report_value:
  "\<exists>rep. build_report fetched = Inr rep \<and>
     dom (rep_publications rep) = fst ` set (filter has_current fetched) \<and>
     rep_current_avg_open_rate rep =
       (if filter has_current fetched = [] then 0
        else arith_mean (map (publication_open_rate \<circ> fst \<circ> snd) (filter has_current fetched))) \<and>
     rep_previous_avg_open_rate rep =
       (if filter has_both fetched = [] then 0
        else arith_mean (map (publication_open_rate \<circ> snd \<circ> snd) (filter has_both fetched)))"
proof -
  obtain acc where a: "foldE publication_step empty_report fetched = Inr acc"
    and c: "open_rates (totals_current acc) =
       map (publication_open_rate \<circ> fst \<circ> snd) (filter has_current fetched)"
    and p: "open_rates (totals_previous acc) =
       map (publication_open_rate \<circ> snd \<circ> snd) (filter has_both fetched)"
    and d: "dom (publications acc) = fst ` set (filter has_current fetched)"
    using foldE_publication_step [of empty_report fetched]
    by (auto simp: empty_report_def empty_totals_def)
  obtain rep where r: "finish_report acc = Inr rep" "rep_publications rep = publications acc"
     "rep_current_avg_open_rate rep =
       (if open_rates (totals_current acc) = [] then 0
        else arith_mean (open_rates (totals_current acc)))"
     "rep_previous_avg_open_rate rep =
       (if open_rates (totals_previous acc) = [] then 0
        else arith_mean (open_rates (totals_previous acc)))"
    using finish_report_value [of acc] by blast
  have "build_report fetched = Inr rep" by (simp add: build_report_def a r(1))
  then show ?thesis using r(2-4) c p d by auto
qed

lemma build_report_skips_silent:
  "build_report (filter has_current fetched) = build_report fetched"
  by (simp add: build_report_def foldE_skips_silent)

text \<open>
  C2. \<open>calc_metrics\<close> returns the null aggregate on the empty list. In the report
  builders, a publication with posts in the current period and none in the previous one
  gets every tracked metric compared against 0: its entry has no previous aggregate and
  all nine changes are the sentinel \<open>{value: 0, display: "N/A", positive: true}\<close>.
\<close>

theorem empty_period_gives_na:
  assumes "curr_posts \<noteq> []"
  shows "calc_metrics [] = Inr None \<and>
         metric_changes cm None = Inr all_na \<and>
         map snd all_na = replicate 9 \<lparr>value' = 0, display = ''N/A'', positive = True\<rparr> \<and>
         (\<exists>acc' e. publication_step acc (pub_key, curr_posts, []) = Inr acc' \<and>
            publications acc' pub_key = Some e \<and> pe_previous e = None \<and>
            pe_changes e = all_na)"
proof -
  have 1: "calc_metrics [] = Inr None" by (simp add: calc_metrics_def)
  have 3: "map snd all_na = replicate 9 \<lparr>value' = 0, display = ''N/A'', positive = True\<rparr>"
    by (simp add: all_na_def count_keys_def rate_keys_def na_change_def numeral_eq_Suc)
  from publication_step_nonempty [OF assms, of "[]" acc pub_key]
  obtain cm0 e where e: "pe_previous e = aggregate []"
    "aggregate [] = None \<longrightarrow> pe_changes e = all_na"
    and st: "publication_step acc (pub_key, curr_posts, []) =
      Inr \<lparr>publications = (publications acc)(pub_key \<mapsto> e),
           totals_current = add_to_totals (totals_current acc) cm0,
           totals_previous =
             (case aggregate [] of
                None \<Rightarrow> totals_previous acc
              | Some pm \<Rightarrow> add_to_totals (totals_previous acc) pm)\<rparr>"
    by auto
  have 4: "\<exists>acc' e. publication_step acc (pub_key, curr_posts, []) = Inr acc' \<and>
            publications acc' pub_key = Some e \<and> pe_previous e = None \<and>
            pe_changes e = all_na"
    using e st by (simp add: aggregate_Nil)
  from 1 metric_changes_None 3 4 show ?thesis by blast
qed

theorem empty_period_gives_na_witness:
  "[fully_opened_post] \<noteq> [] \<and>
   (\<exists>acc' e. publication_step empty_report (''ETL Daily'', [fully_opened_post], []) = Inr acc' \<and>
      publications acc' ''ETL Daily'' = Some e \<and> pe_previous e = None \<and>
      map snd (pe_changes e) =
        replicate 9 \<lparr>value' = 0, display = ''N/A'', positive = True\<rparr>)"
proof -
  have ne: "[fully_opened_post] \<noteq> []" by simp
  obtain cm :: period_aggregate where "cm = cm" by simp
  from empty_period_gives_na [OF ne, of cm empty_report "''ETL Daily''"]
  show ?thesis by auto
qed

text \<open>
  C7. In the totals block of both report builders, the combined average open rate is
  the mean of the publications' average open rates, one summand for each publication
  with a post in the current period (0 when there is none); the previous period's is
  the mean over the publications that have posts in both periods.
\<close>

theorem totals_open_rate_is_mean_of_publication_means:
  "\<exists>rep. generate_weekly_report fetched = Inr rep \<and> generate_monthly_report fetched = Inr rep \<and>
     rep_current_avg_open_rate rep =
       (if filter has_current fetched = [] then 0
        else arith_mean (map (publication_open_rate \<circ> fst \<circ> snd) (filter has_current fetched))) \<and>
     rep_previous_avg_open_rate rep =
       (if filter has_both fetched = [] then 0
        else arith_mean (map (publication_open_rate \<circ> snd \<circ> snd) (filter has_both fetched)))"
  using build_report_value [of fetched]
  unfolding generate_weekly_report_def generate_monthly_report_def by blast

lemma sample_open_rates:
  "post_open_rate fully_opened_post = 100" "post_open_rate unopened_post = 0"
  by (simp_all add: post_open_rate_def raw_recipients_def raw_unique_opens_def
      fully_opened_post_def unopened_post_def post_of_email_def empty_email_def dict_get_def)

theorem totals_open_rate_is_mean_of_publication_means_witness:
  "\<exists>rep. generate_weekly_report two_publications = Inr rep \<and>
     rep_current_avg_open_rate rep = 50 \<and>
     rep_previous_avg_open_rate rep = 100 \<and>
     arith_mean (map post_open_rate (concat (map (fst \<circ> snd) two_publications))) = 25"
proof -
  have f: "filter has_current two_publications = two_publications"
    "filter has_both two_publications =
       [(''EP Daily'', [unopened_post, unopened_post, unopened_post], [fully_opened_post])]"
    by (simp_all add: two_publications_def has_current_def has_both_def)
  have m: "arith_mean (map (publication_open_rate \<circ> fst \<circ> snd) two_publications) = 50"
    "arith_mean (map (publication_open_rate \<circ> snd \<circ> snd)
       [(''EP Daily'', [unopened_post, unopened_post, unopened_post], [fully_opened_post])]) = 100"
    "arith_mean (map post_open_rate (concat (map (fst \<circ> snd) two_publications))) = 25"
    by (simp_all add: two_publications_def publication_open_rate_def arith_mean_def
        sample_open_rates)
  have ne: "two_publications \<noteq> []" by (simp add: two_publications_def)
  from totals_open_rate_is_mean_of_publication_means [of two_publications] f m ne
  show ?thesis by auto
qed

text \<open>
  C9. A publication without a post in the current period leaves the report as it was:
  its loop iteration changes nothing, whatever its previous-period posts, so both
  builders return the report they return without that publication, and the keys of the
  report's publications map are those of the publications with a current post.
\<close>

theorem silent_publication_omitted:
  "publication_step acc (pub_key, [], prev_posts) = Inr acc \<and>
   generate_weekly_report fetched = generate_weekly_report (filter has_current fetched) \<and>
   generate_monthly_report fetched = generate_monthly_report (filter has_current fetched) \<and>
   (\<exists>rep. generate_weekly_report fetched = Inr rep \<and> generate_monthly_report fetched = Inr rep \<and>
      dom (rep_publications rep) = fst ` set (filter has_current fetched))"
proof -
  obtain rep where r: "build_report fetched = Inr rep"
    "dom (rep_publications rep) = fst ` set (filter has_current fetched)"
    using build_report_value [of fetched] by blast
  have "\<exists>rep. generate_weekly_report fetched = Inr rep \<and> generate_monthly_report fetched = Inr rep \<and>
      dom (rep_publications rep) = fst ` set (filter has_current fetched)"
    unfolding generate_weekly_report_def generate_monthly_report_def using r by blast
  then show ?thesis
    by (simp add: generate_weekly_report_def generate_monthly_report_def
        build_report_skips_silent publication_step_empty)
qed

theorem silent_publication_omitted_witness:
  "publication_step empty_report (''EP Daily'', [], [fully_opened_post]) = Inr empty_report \<and>
   generate_weekly_report silent_publication =
     generate_weekly_report [(''ETL Daily'', [fully_opened_post], [unopened_post])] \<and>
   generate_monthly_report silent_publication =
     generate_monthly_report [(''ETL Daily'', [fully_opened_post], [unopened_post])] \<and>
   (\<exists>rep. generate_weekly_report silent_publication = Inr rep \<and>
      rep_publications rep ''EP Daily'' = None \<and> rep_publications rep ''ETL Daily'' \<noteq> None)"
proof -
  have f: "filter has_current silent_publication =
      [(''ETL Daily'', [fully_opened_post], [unopened_post])]"
    by (simp add: silent_publication_def has_current_def)
  from silent_publication_omitted
    [of empty_report "''EP Daily''" "[fully_opened_post]" silent_publication]
  obtain rep where r: "generate_weekly_report silent_publication = Inr rep"
    "dom (rep_publications rep) = fst ` set (filter has_current silent_publication)"
    and s: "publication_step empty_report (''EP Daily'', [], [fully_opened_post]) = Inr empty_report"
    and w: "generate_weekly_report silent_publication =
      generate_weekly_report (filter has_current silent_publication)"
    and m: "generate_monthly_report silent_publication =
      generate_monthly_report (filter has_current silent_publication)"
    by blast
  have d: "dom (rep_publications rep) = {''ETL Daily''}" using r(2) by (simp add: f)
  have "''EP Daily'' \<notin> dom (rep_publications rep)" "''ETL Daily'' \<in> dom (rep_publications rep)"
    unfolding d by simp_all
  then have "rep_publications rep ''EP Daily'' = None \<and> rep_publications rep ''ETL Daily'' \<noteq> None"
    by (simp add: domIff)
  then show ?thesis using r(1) s w m unfolding f by blast
qed

subsection \<open>The pagination loop\<close>

lemma fetch_loop_pages:
  assumes "api_key \<noteq> []"
    and "\<forall>i<n. \<not> last_page srv pid expand (page + int i)"
    and "last_page srv pid expand (page + int n)"
  shows "fetch_loop api_key srv pid expand s e page acc =
           Some (Inr (acc @ filter (in_window s e)
             (concat (map (\<lambda>i. page_posts srv pid expand (page + int i)) [0..<n]) @
              accepted_posts srv pid expand (page + int n))))"
  using assms(2,3)
proof (induction n arbitrary: page acc)
  case 0
  then show ?case
    using assms(1)
    by (subst fetch_loop.simps)
       (auto simp: last_page_def last_page_claimed_def accepted_posts_def page_posts_def Let_def)
next
  case (Suc n)
  have here: "\<not> last_page srv pid expand page"
    using Suc.prems(1) by (metis add.right_neutral of_nat_0 zero_less_Suc)
  have cont: "\<forall>i<n. \<not> last_page srv pid expand (page + 1 + int i)"
  proof (intro allI impI)
    fix i assume "i < n"
    then have "\<not> last_page srv pid expand (page + int (Suc i))"
      using Suc.prems(1) by (meson Suc_less_eq)
    then show "\<not> last_page srv pid expand (page + 1 + int i)"
      by (simp add: add.assoc)
  qed
  have stop: "last_page srv pid expand (page + 1 + int n)"
    using Suc.prems(2) by (simp add: add.assoc)
  have step: "fetch_loop api_key srv pid expand s e page acc =
      fetch_loop api_key srv pid expand s e (page + 1)
        (acc @ filter (in_window s e) (page_posts srv pid expand page))"
    using assms(1) here
    by (subst fetch_loop.simps)
       (auto simp: last_page_def last_page_claimed_def page_posts_def Let_def)
  have shift: "map (\<lambda>i. page_posts srv pid expand (page + int i)) [0..<Suc n] =
      page_posts srv pid expand page #
      map (\<lambda>i. page_posts srv pid expand (page + 1 + int i)) [0..<n]"
    by (subst map_upt_Suc) (simp add: add.assoc)
  show ?case
    unfolding step Suc.IH [OF cont stop] shift
    by (simp add: add.assoc)
qed

lemma fetch_loop_returns:
  assumes "fetch_loop api_key srv pid expand s e page acc = Some r"
  shows "api_key = [] \<or> (\<exists>n. last_page srv pid expand (page + int n))"
proof (rule fetch_loop.raw_induct
    [where P = "\<lambda>k sv pb ex st en pg ac res. k = [] \<or> (\<exists>n. last_page sv pb ex (pg + int n))",
      OF _ assms])
  fix f :: "string \<Rightarrow> server \<Rightarrow> string \<Rightarrow> string list option \<Rightarrow> int \<Rightarrow> int \<Rightarrow> int \<Rightarrow>
    raw_post list \<Rightarrow> (py_error + raw_post list) option"
  fix k sv pb ex st en pg ac res
  assume IH: "\<And>k' sv' pb' ex' st' en' pg' ac' y. f k' sv' pb' ex' st' en' pg' ac' = Some y \<Longrightarrow>
      k' = [] \<or> (\<exists>n. last_page sv' pb' ex' (pg' + int n))"
  assume body: "(if k = [] then Some (Inl (SystemExit 1))
      else let resp = sv pb (page_request ex pg)
           in if status_code resp \<noteq> 200 then Some (Inr ac)
              else let posts = dict_get (r_data resp) []
                   in if posts = [] then Some (Inr ac)
                      else let all_posts' = ac @ filter (in_window st en) posts
                           in if dict_get (r_total_pages resp) 1 \<le> pg
                              then Some (Inr all_posts')
                              else f k sv pb ex st en (pg + 1) all_posts') = Some res"
  show "k = [] \<or> (\<exists>n. last_page sv pb ex (pg + int n))"
  proof (cases "k = [] \<or> last_page sv pb ex pg")
    case True
    then show ?thesis
    proof
      assume "k = []" then show ?thesis by simp
    next
      assume "last_page sv pb ex pg"
      then have "last_page sv pb ex (pg + int 0)" by simp
      then show ?thesis by blast
    qed
  next
    case False
    then have "f k sv pb ex st en (pg + 1)
        (ac @ filter (in_window st en) (dict_get (r_data (sv pb (page_request ex pg))) [])) = Some res"
      using body
      by (simp add: last_page_def last_page_claimed_def Let_def split: if_splits)
    from IH [OF this] False obtain n where "last_page sv pb ex (pg + 1 + int n)"
      by blast
    then have "last_page sv pb ex (pg + int (Suc n))" by (simp add: add.assoc)
    then show ?thesis by blast
  qed
qed

lemma fetch_loop_exit: "fetch_loop [] srv pid expand s e page acc = Some (Inl (SystemExit 1))"
  by (subst fetch_loop.simps) simp

lemma first_last_page:
  assumes "last_page srv pid expand (page + int m)"
  shows "\<exists>n. (\<forall>i<n. \<not> last_page srv pid expand (page + int i)) \<and>
             last_page srv pid expand (page + int n)"
proof -
  define n where "n = (LEAST j. last_page srv pid expand (page + int j))"
  have "last_page srv pid expand (page + int n)"
    unfolding n_def using assms by (rule LeastI)
  moreover have "\<not> last_page srv pid expand (page + int i)" if "i < n" for i
    using that unfolding n_def by (rule not_less_Least)
  ultimately show ?thesis by blast
qed


lemma stub_page_in_window:
  assumes "a \<le> i" and "j \<le> b"
  shows "filter (in_window a b) (stub_page i j) = stub_page i j"
  unfolding stub_page_def using assms
  by (intro filter_True) (auto simp: in_window_def stub_post_def dict_get_def)

lemma stub_page_outside_window:
  assumes "j < a \<or> b < i"
  shows "filter (in_window a b) (stub_page i j) = []"
  unfolding stub_page_def using assms
  by (intro filter_False) (auto simp: in_window_def stub_post_def dict_get_def)

lemma stub_page_append:
  assumes "i \<le> j" and "j \<le> k"
  shows "stub_page i j @ stub_page (j + 1) k = stub_page i k"
  unfolding stub_page_def using upto_split2 [OF assms] by simp

lemma stub_page_length: "length (stub_page i j) = nat (j - i + 1)"
  unfolding stub_page_def by simp

lemma stub_page_nonempty: "i \<le> j \<Longrightarrow> stub_page i j \<noteq> []"
  unfolding stub_page_def by simp

lemma stub_server_pages:
  "\<not> last_page stub_server pid expand 1" "last_page stub_server pid expand 2"
  "page_posts stub_server pid expand 1 = stub_page 0 99"
  "accepted_posts stub_server pid expand 2 = stub_page 100 136"
  by (simp_all add: last_page_def last_page_claimed_def page_posts_def accepted_posts_def
      stub_server_def page_request_def dict_get_def Let_def stub_page_nonempty)

lemma stub_server_fetch:
  assumes "api_key \<noteq> []"
  shows "fetch_loop api_key stub_server pid expand s e 1 [] =
    Some (Inr (filter (in_window s e) (stub_page 0 99) @ filter (in_window s e) (stub_page 100 136)))"
proof -
  have c: "\<forall>i<1. \<not> last_page stub_server pid expand (1 + int i)"
    by (simp add: stub_server_pages)
  have l: "last_page stub_server pid expand (1 + int 1)"
    by (simp add: stub_server_pages)
  show ?thesis
    using fetch_loop_pages [OF assms c l, of s e "[]"] by (simp add: stub_server_pages)
qed

lemma failing_server_pages:
  "\<not> last_page failing_server pid expand 1" "last_page failing_server pid expand 2"
  "\<not> last_page_claimed failing_server pid expand 1" "last_page_claimed failing_server pid expand 2"
  "page_posts failing_server pid expand 1 = [stub_post 1]"
  "page_posts failing_server pid expand 2 = [stub_post 2]"
  "accepted_posts failing_server pid expand 2 = []"
  by (simp_all add: last_page_def last_page_claimed_def page_posts_def accepted_posts_def
      failing_server_def page_request_def dict_get_def Let_def)




end
